theory Spec2Isabelle
  imports Complex_Main "HOL-Library.Multiset"
begin

section \<open>Python values, exceptions and the country registry\<close>

text \<open>
  The embedding follows \<^verbatim>\<open>src/trade_graph.py\<close>. Python numbers (the trade values, the
  deficits, the scenario fractions) are read as exact reals: rounding of floats is not
  modelled. Every exception the code can raise is a value of \<open>error\<close>; a function that
  can raise returns \<open>error + 'a\<close>, and one that also mutates the graph returns the graph
  it leaves behind next to the outcome, since a Python exception does not undo the
  mutations made before it.
\<close>

type_synonym country = string

datatype error =
    KeyError string
  | TypeError
  | ValueError string
  | ZeroDivisionError

text \<open>Python's \<^verbatim>\<open>a / b\<close> on int and float operands.\<close>

definition truediv :: "real \<Rightarrow> real \<Rightarrow> error + real" where
  "truediv a b = (if b = 0 then Inl ZeroDivisionError else Inr (a / b))"

text \<open>A generator or comprehension whose element expression can raise.\<close>

fun mapE :: "('a \<Rightarrow> error + 'b) \<Rightarrow> 'a list \<Rightarrow> error + 'b list" where
  "mapE f [] = Inr []"
| "mapE f (x # xs) =
     (case f x of
        Inl e \<Rightarrow> Inl e
      | Inr y \<Rightarrow> (case mapE f xs of Inl e \<Rightarrow> Inl e | Inr ys \<Rightarrow> Inr (y # ys)))"

text \<open>Subscripting a dict held as an association list: \<^verbatim>\<open>d[k]\<close>.\<close>

definition subscript :: "(string \<times> 'v) list \<Rightarrow> string \<Rightarrow> error + 'v" where
  "subscript d k = (case map_of d k of None \<Rightarrow> Inl (KeyError k) | Some v \<Rightarrow> Inr v)"

text \<open>
  The two module-level tables are unpickled from data files that are not part of the
  source, so the unpickled tables are parameters; the overrides written in the module
  are applied on top of them. The key \<^verbatim>\<open>Cote d'Ivoire\<close> is spelled in the source with
  the typographic apostrophe U+2019, three bytes in UTF-8.
\<close>

definition name_to_iso_alpha :: "(string \<rightharpoonup> string) \<Rightarrow> (string \<rightharpoonup> string)" where
  "name_to_iso_alpha pickled =
     pickled(''Pitcairn Islands'' \<mapsto> ''PCN'',
             ''Wallis and Futuna Islands'' \<mapsto> ''WLF'',
             ''Netherlands Antilles (former)'' \<mapsto> ''ANT'',
             ''French Southern and Antarctic Territories'' \<mapsto> ''ATF'')"

definition name_to_centroid :: "(string \<rightharpoonup> real \<times> real) \<Rightarrow> (string \<rightharpoonup> real \<times> real)" where
  "name_to_centroid pickled =
     pickled(''Congo (Dem. Rep.)'' \<mapsto> (23.64396107, - 2.87746289),
             ''Democratic Republic of the Congo'' \<mapsto> (23.64396107, - 2.87746289),
             ''Cote d'' @ [CHR 0xE2, CHR 0x80, CHR 0x99] @ ''Ivoire'' \<mapsto> (- 5.5692157, 7.6284262),
             ''Laos'' \<mapsto> (102.4954987, 19.8562698),
             ''South Korea'' \<mapsto> (127.83916086, 36.38523983),
             ''Czech Republic'' \<mapsto> (15.31240163, 49.73341233))"

definition get_iso_alpha_from_country_name :: "(string \<rightharpoonup> string) \<Rightarrow> string \<Rightarrow> error + string" where
  "get_iso_alpha_from_country_name tab c =
     (case tab c of None \<Rightarrow> Inl (KeyError c) | Some v \<Rightarrow> Inr v)"

definition get_lon_lat_from_country_name ::
  "(string \<rightharpoonup> real \<times> real) \<Rightarrow> string \<Rightarrow> error + real \<times> real" where
  "get_lon_lat_from_country_name tab c =
     (case tab c of None \<Rightarrow> Inl (KeyError c) | Some v \<Rightarrow> Inr v)"


section \<open>The directed graph\<close>

text \<open>
  A node's attribute dict: \<open>None\<close> is an absent key. A node that \<^verbatim>\<open>add_edge\<close> creates
  on the fly has no attribute at all until \<^verbatim>\<open>reset_deficits\<close> gives it the two deficit
  keys.
\<close>

record node_attrs =
  name :: "string option"
  iso :: "string option"
  centroid :: "(real \<times> real) option"
  production :: "int option"
  population :: "int option"
  deficit :: "real option"
  deficit_relative :: "real option"
  locust_start :: "string option"
  locust_end :: "string option"
  covid_start :: "string option"
  covid_end :: "string option"

definition no_attrs :: node_attrs where
  "no_attrs = \<lparr>name = None, iso = None, centroid = None, production = None,
     population = None, deficit = None, deficit_relative = None, locust_start = None,
     locust_end = None, covid_start = None, covid_end = None\<rparr>"

text \<open>
  \<^verbatim>\<open>nx.DiGraph\<close>: the nodes in insertion order with their attribute dicts, and the edges
  in insertion order with their one attribute, \<^verbatim>\<open>amount\<close>. The edges leaving (entering)
  a node, in the order networkx iterates them, are the edges of the list with that
  source (target).
\<close>

record DiGraph =
  nodes :: "(country \<times> node_attrs) list"
  edges :: "((country \<times> country) \<times> real) list"

definition empty_DiGraph :: DiGraph where
  "empty_DiGraph = \<lparr>nodes = [], edges = []\<rparr>"

definition node_names :: "DiGraph \<Rightarrow> country list" where
  "node_names g = map fst (nodes g)"

definition has_node :: "DiGraph \<Rightarrow> country \<Rightarrow> bool" where
  "has_node g n = (n \<in> set (node_names g))"

definition has_edge :: "DiGraph \<Rightarrow> country \<Rightarrow> country \<Rightarrow> bool" where
  "has_edge g u v = ((u, v) \<in> set (map fst (edges g)))"

text \<open>\<^verbatim>\<open>G.get_edge_data(u, v)\<close> is Python's \<^verbatim>\<open>None\<close> when there is no such edge.\<close>

definition get_edge_data :: "DiGraph \<Rightarrow> country \<Rightarrow> country \<Rightarrow> real option" where
  "get_edge_data g u v = map_of (edges g) (u, v)"

text \<open>\<^verbatim>\<open>G.get_edge_data(u, v)['amount']\<close>: subscripting \<^verbatim>\<open>None\<close> is a TypeError.\<close>

definition edge_amount :: "DiGraph \<Rightarrow> country \<Rightarrow> country \<Rightarrow> error + real" where
  "edge_amount g u v = (case get_edge_data g u v of None \<Rightarrow> Inl TypeError | Some a \<Rightarrow> Inr a)"

text \<open>
  \<^verbatim>\<open>G.out_edges(n)\<close> and \<^verbatim>\<open>G.in_edges(n)\<close> for a node \<open>n\<close> of the graph, which is how the
  class calls them.
\<close>

definition out_edges :: "DiGraph \<Rightarrow> country \<Rightarrow> (country \<times> country) list" where
  "out_edges g n = filter (\<lambda>e. fst e = n) (map fst (edges g))"

definition in_edges :: "DiGraph \<Rightarrow> country \<Rightarrow> (country \<times> country) list" where
  "in_edges g n = filter (\<lambda>e. snd e = n) (map fst (edges g))"

text \<open>
  \<^verbatim>\<open>G.add_node(n, **attr)\<close> with all eleven keys given, as the constructor calls it: a
  new node goes to the end, an existing one has its keys overwritten.
\<close>

definition add_node :: "DiGraph \<Rightarrow> country \<Rightarrow> node_attrs \<Rightarrow> DiGraph" where
  "add_node g n a =
     (if has_node g n
      then g\<lparr>nodes := map (\<lambda>(m, b). if m = n then (m, a) else (m, b)) (nodes g)\<rparr>
      else g\<lparr>nodes := nodes g @ [(n, a)]\<rparr>)"

text \<open>The node creation inside \<^verbatim>\<open>add_edge\<close>: an absent endpoint is added with no attribute.\<close>

definition touch_node :: "DiGraph \<Rightarrow> country \<Rightarrow> DiGraph" where
  "touch_node g n = (if has_node g n then g else g\<lparr>nodes := nodes g @ [(n, no_attrs)]\<rparr>)"

text \<open>
  \<^verbatim>\<open>G.add_edge(u, v, amount=x)\<close>: both endpoints are created when absent, \<open>u\<close> first; an
  existing edge keeps its place and has its amount overwritten, so that there is never
  a second edge for the pair.
\<close>

definition add_edge :: "DiGraph \<Rightarrow> country \<Rightarrow> country \<Rightarrow> real \<Rightarrow> DiGraph" where
  "add_edge g u v x =
     (let g' = touch_node (touch_node g u) v in
      if has_edge g' u v
      then g'\<lparr>edges := map (\<lambda>(e, a). if e = (u, v) then (e, x) else (e, a)) (edges g')\<rparr>
      else g'\<lparr>edges := edges g' @ [((u, v), x)]\<rparr>)"

text \<open>The two numeric node attributes that the simulation reads and writes.\<close>

datatype attr_key = Deficit | DeficitRelative

fun get_attr :: "attr_key \<Rightarrow> node_attrs \<Rightarrow> real option" where
  "get_attr Deficit a = deficit a"
| "get_attr DeficitRelative a = deficit_relative a"

fun put_attr :: "attr_key \<Rightarrow> real \<Rightarrow> node_attrs \<Rightarrow> node_attrs" where
  "put_attr Deficit x a = a\<lparr>deficit := Some x\<rparr>"
| "put_attr DeficitRelative x a = a\<lparr>deficit_relative := Some x\<rparr>"

text \<open>\<^verbatim>\<open>nx.set_node_attributes(G, c, name)\<close> with a constant \<open>c\<close>: every node gets the key.\<close>

definition set_node_attributes_const :: "DiGraph \<Rightarrow> real \<Rightarrow> attr_key \<Rightarrow> DiGraph" where
  "set_node_attributes_const g c k = g\<lparr>nodes := map (\<lambda>(n, a). (n, put_attr k c a)) (nodes g)\<rparr>"

text \<open>
  \<^verbatim>\<open>nx.set_node_attributes(G, values, name)\<close> with a dict: the entries are written one
  after the other, and an entry for a name that is not a node is passed over.
\<close>

definition set_node_attribute :: "DiGraph \<Rightarrow> country \<Rightarrow> attr_key \<Rightarrow> real \<Rightarrow> DiGraph" where
  "set_node_attribute g n k x =
     g\<lparr>nodes := map (\<lambda>(m, a). if m = n then (m, put_attr k x a) else (m, a)) (nodes g)\<rparr>"

fun set_node_attributes :: "DiGraph \<Rightarrow> (country \<times> real) list \<Rightarrow> attr_key \<Rightarrow> DiGraph" where
  "set_node_attributes g [] k = g"
| "set_node_attributes g ((n, x) # values) k =
     set_node_attributes (set_node_attribute g n k x) values k"

text \<open>\<^verbatim>\<open>nx.get_node_attributes(G, name)\<close>: the nodes that have the key, with its value.\<close>

definition get_node_attributes :: "DiGraph \<Rightarrow> attr_key \<Rightarrow> (country \<times> real) list" where
  "get_node_attributes g k =
     List.map_filter (\<lambda>(n, a). map_option (Pair n) (get_attr k a)) (nodes g)"


section \<open>Construction of the trade graph\<close>

record trade_row =
  partner :: string
  reporter :: string
  element :: string
  row_value :: real

text \<open>
  The object: \<^verbatim>\<open>self.G\<close> and \<^verbatim>\<open>self.sum_of_trade\<close>. The locust and poverty frames are
  only drawn on the map and are left out. The methods that use nothing but \<^verbatim>\<open>self.G\<close>
  are functions of the \<open>DiGraph\<close>.
\<close>

record TradeGraph =
  graph :: DiGraph
  sum_of_trade :: real

text \<open>\<^verbatim>\<open>Series.unique()\<close>: the distinct values in order of first appearance.\<close>

fun unique :: "'a list \<Rightarrow> 'a list" where
  "unique [] = []"
| "unique (x # xs) = x # unique (filter (\<lambda>y. y \<noteq> x) xs)"

text \<open>
  \<^verbatim>\<open>create_nx_edge_from_trade_row\<close>: the edge, or \<^verbatim>\<open>None\<close> after printing a message;
  the second component is what was printed.
\<close>

definition create_nx_edge_from_trade_row ::
  "trade_row \<Rightarrow> (country \<times> country) option \<times> string list" where
  "create_nx_edge_from_trade_row row =
     (if element row = ''Import Quantity'' then (Some (partner row, reporter row), [])
      else if element row = ''Export Quantity'' then (Some (reporter row, partner row), [])
      else (None, [''Unknown edge type: '' @ element row]))"

definition get_combined_trade_estimate ::
  "DiGraph \<Rightarrow> country \<Rightarrow> country \<Rightarrow> real \<Rightarrow> error + real" where
  "get_combined_trade_estimate g u v new_amount =
     (case edge_amount g u v of Inl e \<Rightarrow> Inl e | Inr a \<Rightarrow> Inr ((a + new_amount) / 2))"

text \<open>The keyword arguments of the constructor's \<^verbatim>\<open>add_node\<close> call.\<close>

definition new_country_attrs :: "country \<Rightarrow> string \<Rightarrow> real \<times> real \<Rightarrow> node_attrs" where
  "new_country_attrs c i ll =
     \<lparr>name = Some c, iso = Some i, centroid = Some ll, production = Some 0,
      population = Some 0, deficit = Some 0, deficit_relative = Some 0,
      locust_start = Some [], locust_end = Some [], covid_start = Some [],
      covid_end = Some []\<rparr>"

text \<open>The first loop of the constructor, over \<^verbatim>\<open>trade_data.partner.unique()\<close>.\<close>

fun add_countries ::
  "(string \<rightharpoonup> string) \<Rightarrow> (string \<rightharpoonup> real \<times> real) \<Rightarrow> country list \<Rightarrow> DiGraph \<Rightarrow> error + DiGraph"
where
  "add_countries isos cens [] g = Inr g"
| "add_countries isos cens (c # cs) g =
     (if c = ''Unspecified Area'' then add_countries isos cens cs g
      else case get_iso_alpha_from_country_name isos c of
        Inl e \<Rightarrow> Inl e
      | Inr i \<Rightarrow>
          (case get_lon_lat_from_country_name cens c of
             Inl e \<Rightarrow> Inl e
           | Inr ll \<Rightarrow>
               add_countries isos cens cs (add_node g c (new_country_attrs c i ll))))"

text \<open>
  The second loop, over the rows. \<^verbatim>\<open>'Unspecified Area' in edge\<close> is evaluated on what
  \<^verbatim>\<open>create_nx_edge_from_trade_row\<close> returned; on \<^verbatim>\<open>None\<close> it raises a TypeError
  (\<^verbatim>\<open>None\<close> is not iterable). The second argument and result carry the printed lines.
\<close>

fun add_trade ::
  "trade_row list \<Rightarrow> DiGraph \<times> string list \<Rightarrow> (error + DiGraph) \<times> string list"
where
  "add_trade [] (g, out) = (Inr g, out)"
| "add_trade (row # rows) (g, out) =
     (case create_nx_edge_from_trade_row row of
        (None, printed) \<Rightarrow> (Inl TypeError, out @ printed)
      | (Some (u, v), printed) \<Rightarrow>
          if u = ''Unspecified Area'' \<or> v = ''Unspecified Area''
          then add_trade rows (g, out @ printed)
          else if has_edge g u v
          then (case get_combined_trade_estimate g u v (row_value row) of
                  Inl e \<Rightarrow> (Inl e, out @ printed)
                | Inr m \<Rightarrow> add_trade rows (add_edge g u v m, out @ printed))
          else add_trade rows (add_edge g u v (row_value row), out @ printed))"

text \<open>\<^verbatim>\<open>TradeGraph.__init__\<close>: the object, or the exception, and the printed lines.\<close>

definition TradeGraph_init ::
  "(string \<rightharpoonup> string) \<Rightarrow> (string \<rightharpoonup> real \<times> real) \<Rightarrow> trade_row list
     \<Rightarrow> (error + TradeGraph) \<times> string list"
where
  "TradeGraph_init iso_pickle centroid_pickle trade_data =
     (case add_countries (name_to_iso_alpha iso_pickle) (name_to_centroid centroid_pickle)
             (unique (map partner trade_data)) empty_DiGraph of
        Inl e \<Rightarrow> (Inl e, [])
      | Inr g \<Rightarrow>
          (case add_trade trade_data (g, []) of
             (Inl e, out) \<Rightarrow> (Inl e, out)
           | (Inr g', out) \<Rightarrow>
               (Inr \<lparr>graph = g', sum_of_trade = sum_list (map snd (edges g'))\<rparr>, out)))"


section \<open>Queries and the deficit computation\<close>

definition get_export_dict :: "DiGraph \<Rightarrow> country \<Rightarrow> error + (country \<times> real) list" where
  "get_export_dict g c =
     mapE (\<lambda>e. case edge_amount g c (snd e) of Inl x \<Rightarrow> Inl x | Inr a \<Rightarrow> Inr (snd e, a))
       (out_edges g c)"

definition get_import_dict :: "DiGraph \<Rightarrow> country \<Rightarrow> error + (country \<times> real) list" where
  "get_import_dict g c =
     mapE (\<lambda>e. case edge_amount g (fst e) c of Inl x \<Rightarrow> Inl x | Inr a \<Rightarrow> Inr (fst e, a))
       (in_edges g c)"

definition get_import_sum :: "DiGraph \<Rightarrow> country \<Rightarrow> error + real" where
  "get_import_sum g c =
     (case mapE (\<lambda>e. edge_amount g (fst e) c) (in_edges g c) of
        Inl x \<Rightarrow> Inl x
      | Inr xs \<Rightarrow> Inr (sum_list xs))"

definition get_export_sum :: "DiGraph \<Rightarrow> country \<Rightarrow> error + real" where
  "get_export_sum g c =
     (case mapE (\<lambda>e. edge_amount g c (snd e)) (out_edges g c) of
        Inl x \<Rightarrow> Inl x
      | Inr xs \<Rightarrow> Inr (sum_list xs))"

definition reset_deficits :: "DiGraph \<Rightarrow> DiGraph" where
  "reset_deficits g =
     set_node_attributes_const (set_node_attributes_const g 0 Deficit) 0 DeficitRelative"

definition get_absolute_deficit :: "DiGraph \<Rightarrow> country \<Rightarrow> country \<Rightarrow> real \<Rightarrow> error + real" where
  "get_absolute_deficit g source p reduction =
     (case edge_amount g source p of Inl x \<Rightarrow> Inl x | Inr a \<Rightarrow> Inr (a * reduction))"

definition get_relative_deficit :: "DiGraph \<Rightarrow> country \<Rightarrow> country \<Rightarrow> real \<Rightarrow> error + real" where
  "get_relative_deficit g source p reduction =
     (case get_absolute_deficit g source p reduction of
        Inl x \<Rightarrow> Inl x
      | Inr d \<Rightarrow>
          (case get_import_sum g p of
             Inl x \<Rightarrow> Inl x
           | Inr s \<Rightarrow> (case truediv d s of Inl x \<Rightarrow> Inl x | Inr q \<Rightarrow> Inr (q * 100))))"

text \<open>
  \<^verbatim>\<open>apply_deficits\<close>: the dict of new deficits is computed in full from the graph as it
  is, then written. An exception in the comprehension leaves the graph untouched.
\<close>

definition apply_deficits :: "DiGraph \<Rightarrow> country \<Rightarrow> real \<Rightarrow> error + DiGraph" where
  "apply_deficits g source reduction =
     (case mapE (\<lambda>e. case subscript (get_node_attributes g Deficit) (snd e) of
                       Inl x \<Rightarrow> Inl x
                     | Inr d \<Rightarrow>
                         (case get_absolute_deficit g source (snd e) reduction of
                            Inl x \<Rightarrow> Inl x
                          | Inr r \<Rightarrow> Inr (snd e, d + r)))
             (out_edges g source) of
        Inl x \<Rightarrow> Inl x
      | Inr values \<Rightarrow> Inr (set_node_attributes g values Deficit))"

text \<open>
  \<^verbatim>\<open>update_relative_deficits\<close>: the nodes in order; \<^verbatim>\<open>data['deficit']\<close> is read from the
  node's own dict. An exception stops the loop and keeps what was written so far.
\<close>

definition node_attr :: "DiGraph \<Rightarrow> country \<Rightarrow> attr_key \<Rightarrow> string \<Rightarrow> error + real" where
  "node_attr g n k key_name =
     (case map_of (nodes g) n of
        None \<Rightarrow> Inl (KeyError n)
      | Some a \<Rightarrow> (case get_attr k a of None \<Rightarrow> Inl (KeyError key_name) | Some x \<Rightarrow> Inr x))"

fun update_relative_loop :: "country list \<Rightarrow> DiGraph \<Rightarrow> (error + unit) \<times> DiGraph" where
  "update_relative_loop [] g = (Inr (), g)"
| "update_relative_loop (c # cs) g =
     (case node_attr g c Deficit ''deficit'' of
        Inl x \<Rightarrow> (Inl x, g)
      | Inr d \<Rightarrow>
          (case get_import_sum g c of
             Inl x \<Rightarrow> (Inl x, g)
           | Inr s \<Rightarrow>
               (case truediv d s of
                  Inl x \<Rightarrow> (Inl x, g)
                | Inr q \<Rightarrow>
                    update_relative_loop cs
                      (set_node_attributes g [(c, q * 100)] DeficitRelative))))"

definition update_relative_deficits :: "DiGraph \<Rightarrow> (error + unit) \<times> DiGraph" where
  "update_relative_deficits g = update_relative_loop (node_names g) g"

definition list_node_attributes :: "DiGraph \<Rightarrow> attr_key \<Rightarrow> real list" where
  "list_node_attributes g k = map snd (get_node_attributes g k)"

text \<open>
  The scenario is a dict from country to retained export fraction, held as the list of
  its items in iteration order. The loop of \<^verbatim>\<open>plot_export_restriction_scenario\<close>:
\<close>

type_synonym scenario = "(country \<times> real) list"

fun apply_scenario :: "scenario \<Rightarrow> DiGraph \<Rightarrow> (error + unit) \<times> DiGraph" where
  "apply_scenario [] g = (Inr (), g)"
| "apply_scenario ((source, export_fraction) # rest) g =
     (if \<not> has_node g source then (Inl (ValueError (source @ '' is not in graph'')), g)
      else case apply_deficits g source (1 - export_fraction) of
        Inl x \<Rightarrow> (Inl x, g)
      | Inr g' \<Rightarrow> apply_scenario rest g')"

text \<open>
  \<^verbatim>\<open>plot_export_restriction_scenario\<close> up to the point where the figure is built: the
  value is \<^verbatim>\<open>(total_deficits, total_relative_deficit)\<close>, the state is the object with the
  per-node deficits the figure is drawn from. The drawing itself is not modelled.
\<close>

definition plot_export_restriction_scenario ::
  "scenario \<Rightarrow> TradeGraph \<Rightarrow> (error + real \<times> real) \<times> TradeGraph"
where
  "plot_export_restriction_scenario sc T =
     (case apply_scenario sc (reset_deficits (graph T)) of
        (Inl x, g) \<Rightarrow> (Inl x, T\<lparr>graph := g\<rparr>)
      | (Inr u, g) \<Rightarrow>
          (let total_deficits = sum_list (list_node_attributes g Deficit) in
           case truediv total_deficits (sum_of_trade T) of
             Inl x \<Rightarrow> (Inl x, T\<lparr>graph := g\<rparr>)
           | Inr q \<Rightarrow>
               (let total_relative_deficit = q * 100 in
                case update_relative_deficits g of
                  (Inl x, g') \<Rightarrow> (Inl x, T\<lparr>graph := g'\<rparr>)
                | (Inr u', g') \<Rightarrow>
                    (Inr (total_deficits, total_relative_deficit), T\<lparr>graph := g'\<rparr>))))"

section \<open>Example inputs\<close>

text \<open>
  A registry for three countries, and the trade frames used to run the code on concrete
  inputs: one export report, the two-edge example of the specification written once as
  export reports of \<open>A\<close> and once as import reports of \<open>B\<close> and \<open>C\<close>, two countries
  exporting to each other, and a frame with an unrecognised element.
\<close>

definition example_iso :: "string \<rightharpoonup> string" where
  "example_iso = [''A'' \<mapsto> ''AAA'', ''B'' \<mapsto> ''BBB'', ''C'' \<mapsto> ''CCC'']"

definition example_centroid :: "string \<rightharpoonup> real \<times> real" where
  "example_centroid = [''A'' \<mapsto> (1, 1), ''B'' \<mapsto> (2, 2), ''C'' \<mapsto> (3, 3)]"

definition single_export :: "trade_row list" where
  "single_export =
     [\<lparr>partner = ''B'', reporter = ''A'', element = ''Export Quantity'', row_value = 100\<rparr>]"

definition single_export_graph :: TradeGraph where
  "single_export_graph =
     \<lparr>graph = \<lparr>nodes = [(''B'', new_country_attrs ''B'' ''BBB'' (2, 2)), (''A'', no_attrs)],
               edges = [((''A'', ''B''), 100)]\<rparr>,
      sum_of_trade = 100\<rparr>"

definition example_exports :: "trade_row list" where
  "example_exports =
     [\<lparr>partner = ''B'', reporter = ''A'', element = ''Export Quantity'', row_value = 100\<rparr>,
      \<lparr>partner = ''C'', reporter = ''A'', element = ''Export Quantity'', row_value = 50\<rparr>]"

definition example_exports_graph :: TradeGraph where
  "example_exports_graph =
     \<lparr>graph = \<lparr>nodes = [(''B'', new_country_attrs ''B'' ''BBB'' (2, 2)),
                        (''C'', new_country_attrs ''C'' ''CCC'' (3, 3)),
                        (''A'', no_attrs)],
               edges = [((''A'', ''B''), 100), ((''A'', ''C''), 50)]\<rparr>,
      sum_of_trade = 150\<rparr>"

definition example_imports :: "trade_row list" where
  "example_imports =
     [\<lparr>partner = ''A'', reporter = ''B'', element = ''Import Quantity'', row_value = 100\<rparr>,
      \<lparr>partner = ''A'', reporter = ''C'', element = ''Import Quantity'', row_value = 50\<rparr>]"

definition example_imports_graph :: TradeGraph where
  "example_imports_graph =
     \<lparr>graph = \<lparr>nodes = [(''A'', new_country_attrs ''A'' ''AAA'' (1, 1)),
                        (''B'', no_attrs), (''C'', no_attrs)],
               edges = [((''A'', ''B''), 100), ((''A'', ''C''), 50)]\<rparr>,
      sum_of_trade = 150\<rparr>"

definition mutual_exports :: "trade_row list" where
  "mutual_exports =
     [\<lparr>partner = ''B'', reporter = ''A'', element = ''Export Quantity'', row_value = 100\<rparr>,
      \<lparr>partner = ''A'', reporter = ''B'', element = ''Export Quantity'', row_value = 50\<rparr>]"

definition mutual_graph :: TradeGraph where
  "mutual_graph =
     \<lparr>graph = \<lparr>nodes = [(''B'', new_country_attrs ''B'' ''BBB'' (2, 2)),
                        (''A'', new_country_attrs ''A'' ''AAA'' (1, 1))],
               edges = [((''A'', ''B''), 100), ((''B'', ''A''), 50)]\<rparr>,
      sum_of_trade = 150\<rparr>"

definition unknown_element :: "trade_row list" where
  "unknown_element =
     [\<lparr>partner = ''B'', reporter = ''A'', element = ''Re-export Quantity'', row_value = 1\<rparr>]"

lemma single_export_graph_built:
  "TradeGraph_init example_iso example_centroid single_export = (Inr single_export_graph, [])"
  by code_simp

lemma example_exports_graph_built:
  "TradeGraph_init example_iso example_centroid example_exports = (Inr example_exports_graph, [])"
  by code_simp

lemma example_imports_graph_built:
  "TradeGraph_init example_iso example_centroid example_imports = (Inr example_imports_graph, [])"
  by code_simp

lemma mutual_graph_built:
  "TradeGraph_init example_iso example_centroid mutual_exports = (Inr mutual_graph, [])"
  by code_simp


section \<open>The evaluation writes the deficit fields only\<close>

lemma edges_set_node_attribute [simp]: "edges (set_node_attribute g n k x) = edges g"
  by (simp add: set_node_attribute_def)

lemma node_names_set_node_attribute [simp]:
  "node_names (set_node_attribute g n k x) = node_names g"
  by (simp add: set_node_attribute_def node_names_def comp_def case_prod_unfold if_distrib)

lemma edges_set_node_attributes [simp]: "edges (set_node_attributes g vs k) = edges g"
  by (induction vs arbitrary: g) auto

lemma node_names_set_node_attributes [simp]:
  "node_names (set_node_attributes g vs k) = node_names g"
  by (induction vs arbitrary: g) auto

lemma edges_set_node_attributes_const [simp]: "edges (set_node_attributes_const g c k) = edges g"
  by (simp add: set_node_attributes_const_def)

lemma node_names_set_node_attributes_const [simp]:
  "node_names (set_node_attributes_const g c k) = node_names g"
  by (simp add: set_node_attributes_const_def node_names_def comp_def case_prod_unfold)

lemma edges_reset_deficits [simp]: "edges (reset_deficits g) = edges g"
  by (simp add: reset_deficits_def)

lemma node_names_reset_deficits [simp]: "node_names (reset_deficits g) = node_names g"
  by (simp add: reset_deficits_def)

lemma reset_deficits_nodes:
  "reset_deficits g =
     g\<lparr>nodes := map (\<lambda>(n, a). (n, a\<lparr>deficit := Some 0, deficit_relative := Some 0\<rparr>)) (nodes g)\<rparr>"
  by (simp add: reset_deficits_def set_node_attributes_const_def comp_def case_prod_unfold)

lemma reset_put_attr:
  "(put_attr k x a)\<lparr>deficit := Some 0, deficit_relative := Some 0\<rparr> =
     a\<lparr>deficit := Some 0, deficit_relative := Some 0\<rparr>"
  by (cases k) simp_all

lemma reset_set_node_attribute [simp]:
  "reset_deficits (set_node_attribute g n k x) = reset_deficits g"
  by (simp add: reset_deficits_nodes set_node_attribute_def comp_def case_prod_unfold
      if_distrib reset_put_attr cong: if_cong)

lemma reset_set_node_attributes [simp]:
  "reset_deficits (set_node_attributes g vs k) = reset_deficits g"
  by (induction vs arbitrary: g) auto

lemma reset_set_node_attributes_const [simp]:
  "reset_deficits (set_node_attributes_const g c k) = reset_deficits g"
  by (simp add: reset_deficits_nodes set_node_attributes_const_def comp_def case_prod_unfold
      reset_put_attr)

lemma reset_reset_deficits [simp]: "reset_deficits (reset_deficits g) = reset_deficits g"
  by (simp add: reset_deficits_nodes comp_def case_prod_unfold)

lemma reset_apply_deficits:
  "apply_deficits g s r = Inr g' \<Longrightarrow> reset_deficits g' = reset_deficits g"
  by (auto simp: apply_deficits_def split: sum.splits)

lemma reset_apply_scenario [simp]:
  "reset_deficits (snd (apply_scenario sc g)) = reset_deficits g"
  by (induction sc g rule: apply_scenario.induct)
     (auto split: sum.splits dest: reset_apply_deficits)

lemma reset_update_relative_loop [simp]:
  "reset_deficits (snd (update_relative_loop cs g)) = reset_deficits g"
  by (induction cs g rule: update_relative_loop.induct) (auto split: sum.splits)

lemma reset_update_relative_deficits [simp]:
  "reset_deficits (snd (update_relative_deficits g)) = reset_deficits g"
  by (simp add: update_relative_deficits_def)

lemma plot_state:
  "\<exists>g'. snd (plot_export_restriction_scenario sc T) = T\<lparr>graph := g'\<rparr> \<and>
        reset_deficits g' = reset_deficits (graph T)"
proof (cases "apply_scenario sc (reset_deficits (graph T))")
  case (Pair r g)
  then have g: "reset_deficits g = reset_deficits (graph T)"
    using reset_apply_scenario [of sc "reset_deficits (graph T)"] by simp
  show ?thesis
  proof (cases "update_relative_deficits g")
    case up: (Pair r' g')
    then have "reset_deficits g' = reset_deficits g"
      using reset_update_relative_deficits [of g] by simp
    with g Pair up show ?thesis
      by (auto simp: plot_export_restriction_scenario_def Let_def split: sum.splits)
  qed
qed


section \<open>Claims settled on the frame\<close>

text \<open>
  C6. Evaluating a scenario \<open>S1\<close> and then a scenario \<open>S2\<close> on the same object gives,
  for \<open>S2\<close>, exactly what evaluating \<open>S2\<close> alone gives: the same outcome (the two
  global totals, or the same exception) and the same per-country deficits and relative
  deficits in the object left behind. Nothing of the first run survives, because the
  second run starts with \<^verbatim>\<open>reset_deficits\<close> and the first run wrote nothing but the two
  deficit fields. This holds for every graph and every pair of scenarios, also when a
  run raises.
\<close>

theorem reset_invariant:
  "plot_export_restriction_scenario S2 (snd (plot_export_restriction_scenario S1 T)) =
     plot_export_restriction_scenario S2 T"
proof -
  obtain g' where s: "snd (plot_export_restriction_scenario S1 T) = T\<lparr>graph := g'\<rparr>"
    and r: "reset_deficits g' = reset_deficits (graph T)"
    using plot_state by blast
  show ?thesis
    unfolding s
    by (simp add: plot_export_restriction_scenario_def r Let_def split: prod.splits sum.splits)
qed

end
